theory Spec2Isabelle
  imports Main "HOL-Library.AList"
begin

section \<open>Python values, exceptions and dictionaries\<close>

text \<open>
  The module \<^verbatim>\<open>elaphe/symbology/util/translation.py\<close> is Python 2 (it uses
  \<^verbatim>\<open>except TranslationError, e\<close>), so messages are byte strings and
  \<^verbatim>\<open>dict.keys()\<close> returns a fresh list.

  The values that flow through the driver: \<^verbatim>\<open>None\<close>, \<^verbatim>\<open>NotImplemented\<close>,
  integers, strings (replacement units such as \<^verbatim>\<open>'#'\<close>) and the two marker classes
  \<^verbatim>\<open>Translation.RAISE_ON_ERROR\<close> and \<^verbatim>\<open>Translation.IGNORE_ON_ERROR\<close>.
\<close>

datatype pyval =
    PyNone
  | PyNotImplemented
  | PyInt int
  | PyStr string
  | RAISE_ON_ERROR
  | IGNORE_ON_ERROR

text \<open>
  The exceptions the module can raise. \<^verbatim>\<open>TranslationError\<close> is a subclass of
  \<^verbatim>\<open>ValueError\<close>; a plain \<^verbatim>\<open>ValueError\<close> is not a \<^verbatim>\<open>TranslationError\<close>, so
  \<^verbatim>\<open>except TranslationError\<close> does not catch it.
\<close>

datatype exn = TranslationError | ValueError | IndexError | TypeError

text \<open>A dictionary is an association list with unique keys; assignment is \<open>AList.update\<close>.\<close>

type_synonym pydict = "(string \<times> pyval) list"

definition dict_of :: "(string \<times> pyval) list \<Rightarrow> pydict" where
  \<comment> \<open>\<^verbatim>\<open>dict(pairs)\<close>: the pairs are assigned in order, a later pair overwrites.\<close>
  "dict_of items = foldl (\<lambda>d (k, v). AList.update k v d) [] items"

definition dict_update :: "pydict \<Rightarrow> pydict \<Rightarrow> pydict" where
  \<comment> \<open>\<^verbatim>\<open>d.update(e)\<close>\<close>
  "dict_update d e = foldl (\<lambda>d (k, v). AList.update k v d) d e"

definition dict_get :: "pydict \<Rightarrow> string \<Rightarrow> pyval" where
  \<comment> \<open>\<^verbatim>\<open>d.get(k)\<close>: \<^verbatim>\<open>None\<close> when the key is missing.\<close>
  "dict_get d k = (case map_of d k of Some v \<Rightarrow> v | None \<Rightarrow> PyNone)"

definition dict_keys :: "pydict \<Rightarrow> string list" where
  \<comment> \<open>\<^verbatim>\<open>d.keys()\<close> of Python 2: a new list.\<close>
  "dict_keys d = map fst d"

section \<open>charmap\<close>

text \<open>
  \<^verbatim>\<open>
  def charmap(chars, offset=0, skip_char=None):
      return dict(
          (char, (idx+offset if char!=skip_char else None))
          for idx, char in enumerate(chars))
  \<close>
\<close>

definition charmap_items :: "string \<Rightarrow> int \<Rightarrow> char option \<Rightarrow> (string \<times> pyval) list" where
  \<comment> \<open>The pairs of the generator expression, in order.\<close>
  "charmap_items chars offset skip_char =
     map (\<lambda>(idx, char).
            ([char], if Some char \<noteq> skip_char then PyInt (int idx + offset) else PyNone))
         (enumerate 0 chars)"

definition charmap :: "string \<Rightarrow> int \<Rightarrow> char option \<Rightarrow> pydict" where
  "charmap chars offset skip_char = dict_of (charmap_items chars offset skip_char)"

section \<open>The driver: Translation.translate\<close>

text \<open>
  A translation object is its \<^verbatim>\<open>reset\<close> and its \<^verbatim>\<open>translate_chars\<close>, both over
  the object's state. \<^verbatim>\<open>translate_chars\<close> returns a value or raises, and may change
  the state.

  \<^verbatim>\<open>translate\<close> is a generator. Consuming it to the end gives the list of the values
  it yielded, the exception that ended it (if any) and the object's final state.
\<close>

record 's outcome =
  yielded :: "pyval list"
  raised :: "exn option"
  final :: 's

definition emit :: "pyval \<Rightarrow> 's outcome \<Rightarrow> 's outcome" where
  "emit v r = r\<lparr>yielded := v # yielded r\<rparr>"

definition halt :: "exn \<Rightarrow> 's \<Rightarrow> 's outcome" where
  "halt e s = \<lparr>yielded = [], raised = Some e, final = s\<rparr>"

text \<open>
  The loop body, for the message that is left, with the queue and the state so far:
  \<^verbatim>\<open>
        for char in message:
            queue += char
            ordinal = None
            try:
                ordinal = self.translate_chars(queue)
            except TranslationError, e:
                if on_error == self.RAISE_ON_ERROR:
                    raise e
                if on_error == self.IGNORE_ON_ERROR:
                    queue = ''
                elif on_error is not None:
                    queue = ''
                    yield on_error
                else:
                    queue = ''
            except:
                raise
            if ordinal is None:
                continue
            elif ordinal is NotImplemented:
                raise TypeError(...)
            else:
                queue = ''
                yield ordinal
  \<close>
\<close>

fun translate_loop ::
  "('s \<Rightarrow> string \<Rightarrow> (exn + pyval) \<times> 's) \<Rightarrow> pyval \<Rightarrow> 's \<Rightarrow> string \<Rightarrow> string \<Rightarrow> 's outcome"
where
  "translate_loop tc on_error s queue [] = \<lparr>yielded = [], raised = None, final = s\<rparr>"
| "translate_loop tc on_error s queue (char # message) =
     (let queue' = queue @ [char] in
      case tc s queue' of
        (Inl TranslationError, s') \<Rightarrow>
          (if on_error = RAISE_ON_ERROR then halt TranslationError s'
           else if on_error = IGNORE_ON_ERROR then translate_loop tc on_error s' [] message
           else if on_error \<noteq> PyNone then emit on_error (translate_loop tc on_error s' [] message)
           else translate_loop tc on_error s' [] message)
      | (Inl e, s') \<Rightarrow> halt e s'
      | (Inr ordinal, s') \<Rightarrow>
          (if ordinal = PyNone then translate_loop tc on_error s' queue' message
           else if ordinal = PyNotImplemented then halt TypeError s'
           else emit ordinal (translate_loop tc on_error s' [] message)))"

definition translate ::
  "('s \<Rightarrow> 's) \<Rightarrow> ('s \<Rightarrow> string \<Rightarrow> (exn + pyval) \<times> 's) \<Rightarrow> 's \<Rightarrow> string \<Rightarrow> pyval \<Rightarrow> 's outcome"
where
  \<comment> \<open>\<^verbatim>\<open>self.reset(); queue = ''\<close>, then the loop.\<close>
  "translate reset tc s message on_error = translate_loop tc on_error (reset s) [] message"

section \<open>Translation: the abstract base class\<close>

definition Translation_reset :: "unit \<Rightarrow> unit" where
  "Translation_reset s = s"

definition Translation_translate_chars :: "unit \<Rightarrow> string \<Rightarrow> (exn + pyval) \<times> unit" where
  \<comment> \<open>\<^verbatim>\<open>return NotImplemented\<close>\<close>
  "Translation_translate_chars s chars = (Inr PyNotImplemented, s)"

definition Translation_translate :: "string \<Rightarrow> pyval \<Rightarrow> unit outcome" where
  "Translation_translate message on_error =
     translate Translation_reset Translation_translate_chars () message on_error"

section \<open>MapTranslation\<close>

record MapTranslation =
  min_chars :: int
  max_chars :: int
  map_dict :: pydict
  allowed_chars :: "string list"

text \<open>
  \<^verbatim>\<open>
        self.min_chars, self.max_chars = min_chars, max_chars
        self.map = map_
        self.allowed_chars = map_.keys()
        if extra_map:
            self.map.update(extra_map)
  \<close>
  The list of allowed keys is taken before the update. An \<^verbatim>\<open>extra_map\<close> that is
  \<^verbatim>\<open>None\<close> or empty is falsy.
\<close>

definition MapTranslation_init ::
  "pydict \<Rightarrow> int \<Rightarrow> int \<Rightarrow> pydict option \<Rightarrow> MapTranslation" where
  "MapTranslation_init map0 mn mx extra_map =
     (let allowed = dict_keys map0 in
      \<lparr>min_chars = mn, max_chars = mx,
       map_dict = (case extra_map of
                     None \<Rightarrow> map0
                   | Some e \<Rightarrow> if e \<noteq> [] then dict_update map0 e else map0),
       allowed_chars = allowed\<rparr>)"

text \<open>
  \<^verbatim>\<open>
        if len(chars)<self.min_chars:
            return
        elif len(chars)>self.max_chars:
            raise TranslationError(...)
        else:
            if chars not in self.allowed_chars:
                raise TranslationError(...)
            return self.map.get(chars)
  \<close>
\<close>

definition MapTranslation_translate_chars ::
  "MapTranslation \<Rightarrow> string \<Rightarrow> (exn + pyval) \<times> MapTranslation" where
  "MapTranslation_translate_chars t chars =
     (if int (length chars) < min_chars t then (Inr PyNone, t)
      else if int (length chars) > max_chars t then (Inl TranslationError, t)
      else if chars \<notin> set (allowed_chars t) then (Inl TranslationError, t)
      else (Inr (dict_get (map_dict t) chars), t))"

definition MapTranslation_translate :: "MapTranslation \<Rightarrow> string \<Rightarrow> pyval \<Rightarrow> MapTranslation outcome" where
  \<comment> \<open>\<^verbatim>\<open>reset\<close> is inherited from the base class and does nothing.\<close>
  "MapTranslation_translate t message on_error =
     translate (\<lambda>s. s) MapTranslation_translate_chars t message on_error"

definition digits :: "string \<Rightarrow> pyval \<Rightarrow> MapTranslation outcome" where
  \<comment> \<open>\<^verbatim>\<open>digits = MapTranslation(charmap('0123456789')).translate\<close>\<close>
  "digits = MapTranslation_translate (MapTranslation_init (charmap ''0123456789'' 0 None) 1 1 None)"

section \<open>Code128Translation\<close>

datatype code_set = A | B | C

text \<open>
  \<^verbatim>\<open>
    ASCII_7BITS = ''.join(chr(i) for i in range(128))
    CODE_A_TABLE = ASCII_7BITS[32:96] + ASCII_7BITS[:32]
    CODE_B_TABLE = ASCII_7BITS[32:128]
  \<close>
\<close>

definition ASCII_7BITS :: string where
  "ASCII_7BITS = map char_of [0..<128]"

definition CODE_A_TABLE :: string where
  "CODE_A_TABLE = drop 32 (take 96 ASCII_7BITS) @ take 32 ASCII_7BITS"

definition CODE_B_TABLE :: string where
  "CODE_B_TABLE = drop 32 (take 128 ASCII_7BITS)"

fun str_index :: "char \<Rightarrow> string \<Rightarrow> nat option" where
  \<comment> \<open>\<^verbatim>\<open>s.index(c)\<close> for a one-character \<^verbatim>\<open>c\<close>: the first position, or \<open>None\<close>
      where Python raises \<^verbatim>\<open>ValueError\<close> (substring not found).\<close>
  "str_index c [] = None"
| "str_index c (x # xs) =
     (if x = c then Some 0 else map_option Suc (str_index c xs))"

definition is_digit_char :: "char \<Rightarrow> bool" where
  "is_digit_char c = (48 \<le> (of_char c :: nat) \<and> (of_char c :: nat) \<le> 57)"

definition is_space_char :: "char \<Rightarrow> bool" where
  \<comment> \<open>C \<^verbatim>\<open>isspace\<close>: tab, newline, vertical tab, form feed, carriage return, space.\<close>
  "is_space_char c = ((9 \<le> (of_char c :: nat) \<and> (of_char c :: nat) \<le> 13) \<or> (of_char c :: nat) = 32)"

definition isdigit :: "string \<Rightarrow> bool" where
  \<comment> \<open>\<^verbatim>\<open>str.isdigit()\<close>: at least one character, and all are decimal digits.\<close>
  "isdigit s = (s \<noteq> [] \<and> list_all is_digit_char s)"

definition digit_value :: "char \<Rightarrow> int" where
  "digit_value c = int (of_char c) - 48"

definition digits_value :: "string \<Rightarrow> int" where
  \<comment> \<open>The decimal value of a string of digits.\<close>
  "digits_value s = foldl (\<lambda>acc c. 10 * acc + digit_value c) 0 s"

text \<open>
  \<^verbatim>\<open>int(s, 10)\<close> on a byte string: a string holding a NUL byte is refused; leading
  white space is skipped, then an optional sign, then at least one digit, then trailing
  white space up to the end. Anything else raises \<^verbatim>\<open>ValueError\<close> (here \<open>None\<close>).
  Python integers are unbounded. \<^verbatim>\<open>translate_chars\<close> calls it on strings of digits
  and on two-character strings only.
\<close>

definition py_int_digits :: "string \<Rightarrow> int option" where
  \<comment> \<open>At least one digit, then white space up to the end.\<close>
  "py_int_digits s =
     (if takeWhile is_digit_char s = [] then None
      else if dropWhile is_space_char (dropWhile is_digit_char s) \<noteq> [] then None
      else Some (digits_value (takeWhile is_digit_char s)))"

fun py_int_signed :: "string \<Rightarrow> int option" where
  \<comment> \<open>An optional sign, then the digits.\<close>
  "py_int_signed [] = None"
| "py_int_signed (c # cs) =
     (if c = CHR ''-'' then map_option uminus (py_int_digits cs)
      else if c = CHR ''+'' then py_int_digits cs
      else py_int_digits (c # cs))"

definition py_int :: "string \<Rightarrow> int option" where
  "py_int s =
     (if list_ex (\<lambda>c. (of_char c :: nat) = 0) s then None
      else py_int_signed (dropWhile is_space_char s))"

text \<open>
  The state of a \<^verbatim>\<open>Code128Translation\<close> is its attribute \<^verbatim>\<open>code\<close>: \<^verbatim>\<open>None\<close>,
  \<^verbatim>\<open>'A'\<close>, \<^verbatim>\<open>'B'\<close> or \<^verbatim>\<open>'C'\<close>.
\<close>

definition Code128_reset :: "code_set option \<Rightarrow> code_set option" where
  "Code128_reset code = None"

definition CODE_TABLES :: "code_set \<Rightarrow> string" where
  "CODE_TABLES cs = (case cs of A \<Rightarrow> CODE_A_TABLE | B \<Rightarrow> CODE_B_TABLE | C \<Rightarrow> [])"

text \<open>
  \<^verbatim>\<open>
        if chars[0]=='^':
            if len(chars)==1:
                return
            else:
                if chars[1]=='^':
                    return 62
                else:
                    escaped = ''.join(chars[1:])
                    if escaped.isdigit():
                        ordinal = int(escaped, 10)
                        if ordinal<96:
                            return
                        elif ordinal in range(96, 108):
                            if ordinal in (99, 105):
                                self.code = 'C'
                            elif ordinal in (100, 104):
                                self.code = 'B'
                            elif ordinal in (101, 103):
                                self.code = 'A'
                            return ordinal
                        else:
                            pass
                    raise TranslationError(...)
        else:
            ordinal = None
            if self.code in ['A', 'B']:
                code_table = self.CODE_TABLES[self.code]
                try:
                    ordinal = code_table.index(chars[0])
                except IndexError:
                    raise TranslationError(...)
            elif self.code == 'C':
                if len(chars)==2:
                    ordinal = int(''.join(chars), 10)
                else:
                    return
            return ordinal
  \<close>
  \<^verbatim>\<open>chars[0]\<close> on an empty queue raises \<^verbatim>\<open>IndexError\<close>. \<^verbatim>\<open>str.index\<close> raises
  \<^verbatim>\<open>ValueError\<close> when the character is missing, which \<^verbatim>\<open>except IndexError\<close> does
  not catch, so the \<^verbatim>\<open>ValueError\<close> leaves \<^verbatim>\<open>translate_chars\<close>. So does the
  \<^verbatim>\<open>ValueError\<close> of \<^verbatim>\<open>int\<close> in code set C.
\<close>

definition Code128_translate_chars ::
  "code_set option \<Rightarrow> string \<Rightarrow> (exn + pyval) \<times> code_set option" where
  "Code128_translate_chars code chars =
     (case chars of
        [] \<Rightarrow> (Inl IndexError, code)
      | c0 # rest \<Rightarrow>
          if c0 = CHR ''^'' then
            (if length chars = 1 then (Inr PyNone, code)
             else if chars ! 1 = CHR ''^'' then (Inr (PyInt 62), code)
             else
               let escaped = rest in
               if isdigit escaped then
                 (case py_int escaped of
                    None \<Rightarrow> (Inl ValueError, code)
                  | Some ordinal \<Rightarrow>
                      if ordinal < 96 then (Inr PyNone, code)
                      else if 96 \<le> ordinal \<and> ordinal < 108 then
                        (Inr (PyInt ordinal),
                         if ordinal = 99 \<or> ordinal = 105 then Some C
                         else if ordinal = 100 \<or> ordinal = 104 then Some B
                         else if ordinal = 101 \<or> ordinal = 103 then Some A
                         else code)
                      else (Inl TranslationError, code))
               else (Inl TranslationError, code))
          else
            (if code = Some A \<or> code = Some B then
               (case str_index c0 (CODE_TABLES (the code)) of
                  None \<Rightarrow> (Inl ValueError, code)
                | Some i \<Rightarrow> (Inr (PyInt (int i)), code))
             else if code = Some C then
               (if length chars = 2 then
                  (case py_int chars of
                     None \<Rightarrow> (Inl ValueError, code)
                   | Some ordinal \<Rightarrow> (Inr (PyInt ordinal), code))
                else (Inr PyNone, code))
             else (Inr PyNone, code)))"

definition code128 :: "code_set option \<Rightarrow> string \<Rightarrow> pyval \<Rightarrow> code_set option outcome" where
  \<comment> \<open>\<^verbatim>\<open>code128 = Code128Translation().translate\<close>, on an instance whose \<^verbatim>\<open>code\<close>
      is the first argument.\<close>
  "code128 code message on_error =
     translate Code128_reset Code128_translate_chars code message on_error"

section \<open>Auxiliary facts\<close>

subsection \<open>Dictionaries and charmap\<close>


lemma map_of_foldl_update:
  "map_of (foldl (\<lambda>d (k, v). AList.update k v d) d e) = map_of d ++ map_of (rev e)"
proof (induction e arbitrary: d)
  case Nil
  then show ?case by simp
next
  case (Cons p e)
  obtain k v where p: "p = (k, v)" by (cases p)
  have "foldl (\<lambda>d (k, v). AList.update k v d) d (p # e) =
        foldl (\<lambda>d (k, v). AList.update k v d) (AList.update k v d) e"
    by (simp add: p)
  then have "map_of (foldl (\<lambda>d (k, v). AList.update k v d) d (p # e)) =
        map_of (AList.update k v d) ++ map_of (rev e)"
    by (simp only: Cons.IH)
  also have "\<dots> = (map_of d)(k \<mapsto> v) ++ map_of (rev e)"
    by (simp only: update_conv')
  also have "\<dots> = map_of d ++ map_of (rev (p # e))"
    unfolding p by (rule ext) (simp add: map_add_def split: option.splits)
  finally show ?case .
qed

lemma keys_foldl_update:
  "fst ` set (foldl (\<lambda>d (k, v). AList.update k v d) d e) = fst ` set d \<union> fst ` set e"
proof (induction e arbitrary: d)
  case Nil
  then show ?case by simp
next
  case (Cons p e)
  obtain k v where p: "p = (k, v)" by (cases p)
  show ?case
    using Cons.IH [of "AList.update k v d"] p by (auto simp: dom_update)
qed

lemma distinct_foldl_update:
  "distinct (map fst d) \<Longrightarrow> distinct (map fst (foldl (\<lambda>d (k, v). AList.update k v d) d e))"
proof (induction e arbitrary: d)
  case Nil
  then show ?case by simp
next
  case (Cons p e)
  obtain k v where p: "p = (k, v)" by (cases p)
  show ?case
    using Cons.IH [of "AList.update k v d"] Cons.prems p by (simp add: distinct_update)
qed

lemma map_of_rev_last:
  assumes "n < length xs" and "fst (xs ! n) \<notin> fst ` set (drop (Suc n) xs)"
  shows "map_of (rev xs) (fst (xs ! n)) = Some (snd (xs ! n))"
proof -
  have xs: "xs = take n xs @ xs ! n # drop (Suc n) xs"
    using assms(1) by (rule id_take_nth_drop)
  have "rev xs = rev (drop (Suc n) xs) @ xs ! n # rev (take n xs)"
    by (subst xs) simp
  moreover have "map_of (rev (drop (Suc n) xs)) (fst (xs ! n)) = None"
    using assms(2) by (simp add: map_of_eq_None_iff)
  ultimately show ?thesis
    by (cases "xs ! n") (simp add: map_add_def)
qed

lemma charmap_items_nth:
  "n < length chars \<Longrightarrow>
   charmap_items chars offset skip_char ! n =
     ([chars ! n], if Some (chars ! n) \<noteq> skip_char then PyInt (int n + offset) else PyNone)"
  by (simp add: charmap_items_def nth_enumerate_eq)

lemma map_fst_enumerate_items:
  "map fst (map (\<lambda>(idx, char). ([char], g idx char)) (enumerate n chars)) = map (\<lambda>c. [c]) chars"
  by (induction chars arbitrary: n) simp_all

lemma charmap_items_keys:
  "map fst (charmap_items chars offset skip_char) = map (\<lambda>c. [c]) chars"
  unfolding charmap_items_def by (rule map_fst_enumerate_items)

lemma charmap_lookup: 
  "map_of (charmap chars offset skip_char) k = map_of (rev (charmap_items chars offset skip_char)) k"
  by (simp add: charmap_def dict_of_def map_of_foldl_update)

lemma charmap_keys: "set (dict_keys (charmap chars offset skip_char)) = (\<lambda>c. [c]) ` set chars"
proof -
  have "fst ` set (charmap chars offset skip_char) = fst ` set (charmap_items chars offset skip_char)"
    by (simp add: charmap_def dict_of_def keys_foldl_update)
  also have "\<dots> = set (map fst (charmap_items chars offset skip_char))"
    by simp
  also have "\<dots> = (\<lambda>c. [c]) ` set chars"
    by (simp only: charmap_items_keys set_map)
  finally show ?thesis by (simp add: dict_keys_def)
qed

lemma charmap_last_occurrence:
  assumes "n < length chars" and "chars ! n \<notin> set (drop (Suc n) chars)"
  shows "map_of (charmap chars offset skip_char) [chars ! n] =
           Some (if Some (chars ! n) = skip_char then PyNone else PyInt (int n + offset))"
proof -
  let ?xs = "charmap_items chars offset skip_char"
  have len: "n < length ?xs"
    using assms(1) by (simp add: charmap_items_def)
  have nth: "?xs ! n =
      ([chars ! n], if Some (chars ! n) \<noteq> skip_char then PyInt (int n + offset) else PyNone)"
    using assms(1) by (rule charmap_items_nth)
  have "fst ` set (drop (Suc n) ?xs) = set (drop (Suc n) (map fst ?xs))"
    by (simp add: drop_map)
  also have "\<dots> = (\<lambda>c. [c]) ` set (drop (Suc n) chars)"
    by (simp only: charmap_items_keys drop_map set_map)
  finally have "fst (?xs ! n) \<notin> fst ` set (drop (Suc n) ?xs)"
    using assms(2) nth by auto
  from map_of_rev_last [OF len this] nth show ?thesis
    by (simp add: charmap_lookup)
qed

lemma charmap_skip:
  assumes "c \<in> set chars"
  shows "map_of (charmap chars offset (Some c)) [c] = Some PyNone"
proof -
  from split_list_last [OF assms] obtain ys zs
    where chars: "chars = ys @ c # zs" and last: "c \<notin> set zs"
    by blast
  let ?n = "length ys"
  have n: "?n < length chars" and c: "chars ! ?n = c"
    and later: "drop (Suc ?n) chars = zs"
    by (simp_all add: chars)
  from charmap_last_occurrence [OF n, of offset "Some c"] c later last
  show ?thesis by simp
qed

lemma charmap_distinct:
  assumes "distinct chars" and "n < length chars"
  shows "map_of (charmap chars offset skip_char) [chars ! n] =
           Some (if Some (chars ! n) = skip_char then PyNone else PyInt (int n + offset))"
proof -
  have "chars ! n \<notin> set (drop (Suc n) chars)"
  proof
    assume "chars ! n \<in> set (drop (Suc n) chars)"
    then obtain j where j: "j < length (drop (Suc n) chars)" "drop (Suc n) chars ! j = chars ! n"
      by (auto simp: in_set_conv_nth)
    then have "chars ! (Suc n + j) = chars ! n" and "Suc n + j < length chars"
      by simp_all
    with assms show False
      by (simp add: nth_eq_iff_index_eq)
  qed
  with assms(2) show ?thesis by (rule charmap_last_occurrence)
qed

subsection \<open>Characters, integers and the code tables\<close>

lemma is_digit_char_simps:
  "is_digit_char c \<Longrightarrow> \<not> is_space_char c"
  "is_digit_char c \<Longrightarrow> c \<noteq> CHR ''+''"
  "is_digit_char c \<Longrightarrow> c \<noteq> CHR ''-''"
  "is_digit_char c \<Longrightarrow> c \<noteq> CHR ''^''"
  "is_digit_char c \<Longrightarrow> (of_char c :: nat) \<noteq> 0"
  by (auto simp: is_digit_char_def is_space_char_def)

lemma char_class_simps:
  "is_space_char c \<Longrightarrow> \<not> is_digit_char c"
  "is_space_char c \<Longrightarrow> c \<noteq> CHR ''+''"
  "is_space_char c \<Longrightarrow> c \<noteq> CHR ''-''"
  "is_space_char c \<Longrightarrow> (of_char c :: nat) \<noteq> 0"
  "\<not> is_digit_char (CHR ''+'')" "\<not> is_digit_char (CHR ''-'')"
  "\<not> is_space_char (CHR ''+'')" "\<not> is_space_char (CHR ''-'')"
  by (auto simp: is_digit_char_def is_space_char_def)

lemma takeWhile_all: "list_all P xs \<Longrightarrow> takeWhile P xs = xs"
  by (induction xs) auto

lemma dropWhile_all: "list_all P xs \<Longrightarrow> dropWhile P xs = []"
  by (induction xs) auto

text \<open>On a string of digits \<^verbatim>\<open>int(s, 10)\<close> never raises and gives the decimal value.\<close>

lemma py_int_isdigit: "isdigit s \<Longrightarrow> py_int s = Some (digits_value s)"
proof -
  assume d: "isdigit s"
  then have all: "list_all is_digit_char s"
    by (simp add: isdigit_def)
  from d obtain c cs where s: "s = c # cs"
    by (cases s) (auto simp: isdigit_def)
  with all have c: "is_digit_char c" by simp
  have nul: "\<not> list_ex (\<lambda>c. (of_char c :: nat) = 0) s"
    using all is_digit_char_simps(5) by (auto simp: list_all_iff list_ex_iff)
  have sp: "dropWhile is_space_char s = c # cs"
    using s c is_digit_char_simps(1) by simp
  have "py_int_digits s = Some (digits_value s)"
    using all s by (simp add: py_int_digits_def takeWhile_all dropWhile_all)
  then have "py_int_signed (c # cs) = Some (digits_value s)"
    using s is_digit_char_simps(2,3) [OF c] by simp
  then show ?thesis
    using nul sp by (simp add: py_int_def)
qed

text \<open>The escape branch of \<^verbatim>\<open>Code128Translation.translate_chars\<close>, in one equation.\<close>

lemma c128_escape:
  "Code128_translate_chars code (CHR ''^'' # c # rest) =
     (if c = CHR ''^'' then (Inr (PyInt 62), code)
      else if \<not> isdigit (c # rest) then (Inl TranslationError, code)
      else if digits_value (c # rest) < 96 then (Inr PyNone, code)
      else if digits_value (c # rest) \<le> 107 then
        (Inr (PyInt (digits_value (c # rest))),
         if digits_value (c # rest) = 99 \<or> digits_value (c # rest) = 105 then Some C
         else if digits_value (c # rest) = 100 \<or> digits_value (c # rest) = 104 then Some B
         else if digits_value (c # rest) = 101 \<or> digits_value (c # rest) = 103 then Some A
         else code)
      else (Inl TranslationError, code))"
  by (simp add: Code128_translate_chars_def py_int_isdigit Let_def)

text \<open>Without a code set, a queue that does not start with a caret waits, for ever.\<close>

lemma c128_plain_no_code:
  "q \<noteq> [] \<Longrightarrow> hd q \<noteq> CHR ''^'' \<Longrightarrow> Code128_translate_chars None q = (Inr PyNone, None)"
  by (cases q) (simp_all add: Code128_translate_chars_def)

lemma c128_loop_no_code:
  "q \<noteq> [] \<Longrightarrow> hd q \<noteq> CHR ''^'' \<Longrightarrow>
   translate_loop Code128_translate_chars on_error None q message =
     \<lparr>yielded = [], raised = None, final = None\<rparr>"
proof (induction message arbitrary: q)
  case Nil
  then show ?case by simp
next
  case (Cons c cs)
  have q': "q @ [c] \<noteq> []" "hd (q @ [c]) \<noteq> CHR ''^''"
    using Cons.prems by simp_all
  show ?case
    using Cons.IH [OF q'] c128_plain_no_code [OF q'] by simp
qed

lemma str_index_None_iff: "str_index c xs = None \<longleftrightarrow> c \<notin> set xs"
  by (induction xs) auto

lemma str_index_Some:
  "str_index c xs = Some i \<Longrightarrow> i < length xs \<and> xs ! i = c \<and> c \<notin> set (take i xs)"
proof (induction xs arbitrary: i)
  case Nil
  then show ?case by simp
next
  case (Cons x xs)
  show ?case
  proof (cases "x = c")
    case True
    with Cons.prems show ?thesis by simp
  next
    case False
    with Cons.prems obtain j where j: "str_index c xs = Some j" and i: "i = Suc j"
      by auto
    from Cons.IH [OF j] False i show ?thesis by simp
  qed
qed

lemma str_index_nth: "distinct xs \<Longrightarrow> i < length xs \<Longrightarrow> str_index (xs ! i) xs = Some i"
proof (induction xs arbitrary: i)
  case Nil
  then show ?case by simp
next
  case (Cons x xs)
  show ?case
  proof (cases i)
    case 0
    then show ?thesis by simp
  next
    case (Suc j)
    with Cons.prems have "xs ! j \<noteq> x" and "str_index (xs ! j) xs = Some j"
      using Cons.IH [of j] by auto
    with Suc show ?thesis by auto
  qed
qed

lemma char_of_range:
  "b \<le> 256 \<Longrightarrow> c \<in> char_of ` {a..<b::nat} \<longleftrightarrow> a \<le> (of_char c :: nat) \<and> (of_char c :: nat) < b"
proof
  assume b: "b \<le> 256" and "c \<in> char_of ` {a..<b}"
  then obtain n where n: "a \<le> n" "n < b" and c: "c = char_of n"
    by auto
  from n b have "n mod 256 = n" by simp
  with c n show "a \<le> (of_char c :: nat) \<and> (of_char c :: nat) < b"
    by simp
next
  assume "a \<le> (of_char c :: nat) \<and> (of_char c :: nat) < b"
  then have "(of_char c :: nat) \<in> {a..<b}" by simp
  then have "char_of (of_char c :: nat) \<in> char_of ` {a..<b}" by (rule imageI)
  then show "c \<in> char_of ` {a..<b}" by simp
qed

lemma CODE_A_TABLE_eq: "CODE_A_TABLE = map char_of [32..<96] @ map char_of [0..<32::nat]"
  by (simp add: CODE_A_TABLE_def ASCII_7BITS_def take_map drop_map del: upt_rec_numeral)

lemma CODE_B_TABLE_eq: "CODE_B_TABLE = map char_of [32..<128::nat]"
  by (simp add: CODE_B_TABLE_def ASCII_7BITS_def take_map drop_map del: upt_rec_numeral)

lemma CODE_A_TABLE_set: "c \<in> set CODE_A_TABLE \<longleftrightarrow> (of_char c :: nat) < 96"
proof -
  have "set CODE_A_TABLE = char_of ` {32..<96::nat} \<union> char_of ` {0..<32::nat}"
    by (simp add: CODE_A_TABLE_eq del: upt_rec_numeral)
  then show ?thesis
    using char_of_range [of 96 c 32] char_of_range [of 32 c 0] by auto
qed

lemma CODE_B_TABLE_set:
  "c \<in> set CODE_B_TABLE \<longleftrightarrow> 32 \<le> (of_char c :: nat) \<and> (of_char c :: nat) < 128"
proof -
  have "set CODE_B_TABLE = char_of ` {32..<128::nat}"
    by (simp add: CODE_B_TABLE_eq del: upt_rec_numeral)
  then show ?thesis
    using char_of_range [of 128 c 32] by simp
qed

lemma CODE_A_TABLE_distinct: "distinct CODE_A_TABLE"
proof -
  have "CODE_A_TABLE = map char_of ([32..<96] @ [0..<32::nat])"
    by (simp add: CODE_A_TABLE_eq del: upt_rec_numeral)
  moreover have "distinct (map (char_of :: nat \<Rightarrow> char) ([32..<96] @ [0..<32::nat]))"
    by (subst distinct_map, intro conjI)
       (simp del: upt_rec_numeral, rule inj_on_subset [OF inj_on_char_of_nat], auto)
  ultimately show ?thesis by simp
qed

lemma CODE_B_TABLE_distinct: "distinct CODE_B_TABLE"
  unfolding CODE_B_TABLE_eq
  by (subst distinct_map, intro conjI)
     (simp del: upt_rec_numeral, rule inj_on_subset [OF inj_on_char_of_nat], auto)

text \<open>Positions in the tables, in closed form.\<close>

lemma nth_map_upt_shift: "a \<le> n \<Longrightarrow> n < b \<Longrightarrow> map f [a..<b] ! (n - a) = f n"
  by (simp del: upt_rec_numeral)

lemma str_index_CODE_A_TABLE:
  "str_index c CODE_A_TABLE =
     (if (of_char c :: nat) < 32 then Some (of_char c + 64)
      else if (of_char c :: nat) < 96 then Some (of_char c - 32)
      else None)"
proof -
  let ?n = "of_char c :: nat"
  have len: "length CODE_A_TABLE = 96"
    by (simp add: CODE_A_TABLE_eq del: upt_rec_numeral)
  consider "?n < 32" | "32 \<le> ?n" "?n < 96" | "96 \<le> ?n" by linarith
  then show ?thesis
  proof cases
    case 1
    have "CODE_A_TABLE ! (?n + 64) = map char_of [0..<32::nat] ! (?n - 0)"
      by (simp add: CODE_A_TABLE_eq nth_append del: upt_rec_numeral)
    also have "\<dots> = char_of ?n"
      using 1 by (intro nth_map_upt_shift) simp_all
    finally have "CODE_A_TABLE ! (?n + 64) = c" by simp
    moreover have "?n + 64 < length CODE_A_TABLE"
      using 1 len by simp
    ultimately have "str_index c CODE_A_TABLE = Some (?n + 64)"
      using str_index_nth [OF CODE_A_TABLE_distinct, of "?n + 64"] by simp
    with 1 show ?thesis by simp
  next
    case 2
    then have lt: "?n - 32 < 64" by linarith
    have "CODE_A_TABLE ! (?n - 32) = map char_of [32..<96::nat] ! (?n - 32)"
      using lt by (simp add: CODE_A_TABLE_eq nth_append del: upt_rec_numeral)
    also have "\<dots> = char_of ?n"
      using 2 by (intro nth_map_upt_shift) simp_all
    finally have "CODE_A_TABLE ! (?n - 32) = c" by simp
    moreover have "?n - 32 < length CODE_A_TABLE"
      using lt len by simp
    ultimately have "str_index c CODE_A_TABLE = Some (?n - 32)"
      using str_index_nth [OF CODE_A_TABLE_distinct, of "?n - 32"] by simp
    with 2 show ?thesis by simp
  next
    case 3
    then have "c \<notin> set CODE_A_TABLE" by (simp add: CODE_A_TABLE_set)
    with 3 show ?thesis by (simp add: str_index_None_iff)
  qed
qed

lemma str_index_CODE_B_TABLE:
  "str_index c CODE_B_TABLE =
     (if 32 \<le> (of_char c :: nat) \<and> (of_char c :: nat) < 128 then Some (of_char c - 32)
      else None)"
proof -
  let ?n = "of_char c :: nat"
  have len: "length CODE_B_TABLE = 96"
    by (simp add: CODE_B_TABLE_eq del: upt_rec_numeral)
  consider "32 \<le> ?n" "?n < 128" | "\<not> (32 \<le> ?n \<and> ?n < 128)" by linarith
  then show ?thesis
  proof cases
    case 1
    then have lt: "?n - 32 < 96" by linarith
    have "CODE_B_TABLE ! (?n - 32) = char_of ?n"
      unfolding CODE_B_TABLE_eq using 1 by (intro nth_map_upt_shift) simp_all
    then have "CODE_B_TABLE ! (?n - 32) = c" by simp
    moreover have "?n - 32 < length CODE_B_TABLE"
      using lt len by simp
    ultimately have "str_index c CODE_B_TABLE = Some (?n - 32)"
      using str_index_nth [OF CODE_B_TABLE_distinct, of "?n - 32"] by simp
    with 1 show ?thesis by simp
  next
    case 2
    then have "c \<notin> set CODE_B_TABLE" by (simp add: CODE_B_TABLE_set)
    then have "str_index c CODE_B_TABLE = None" by (simp add: str_index_None_iff)
    with 2 show ?thesis by simp
  qed
qed

lemma c128_caret_alone: "Code128_translate_chars code [CHR ''^''] = (Inr PyNone, code)"
  by (simp add: Code128_translate_chars_def)

lemma c128_plain:
  "c \<noteq> CHR ''^'' \<Longrightarrow> Code128_translate_chars code (c # rest) =
     (case code of
        None \<Rightarrow> (Inr PyNone, code)
      | Some A \<Rightarrow> (case str_index c CODE_A_TABLE of
                    None \<Rightarrow> (Inl ValueError, code) | Some i \<Rightarrow> (Inr (PyInt (int i)), code))
      | Some B \<Rightarrow> (case str_index c CODE_B_TABLE of
                    None \<Rightarrow> (Inl ValueError, code) | Some i \<Rightarrow> (Inr (PyInt (int i)), code))
      | Some C \<Rightarrow> (if length rest = 1 then
                     (case py_int (c # rest) of
                        None \<Rightarrow> (Inl ValueError, code) | Some v \<Rightarrow> (Inr (PyInt v), code))
                   else (Inr PyNone, code)))"
  by (auto simp: Code128_translate_chars_def CODE_TABLES_def split: option.splits code_set.splits)

lemma c128_table_lookup:
  assumes "cs \<noteq> C" and "c \<noteq> CHR ''^''"
  shows "Code128_translate_chars (Some cs) (c # rest) =
           (case str_index c (CODE_TABLES cs) of
              None \<Rightarrow> (Inl ValueError, Some cs)
            | Some i \<Rightarrow> (Inr (PyInt (int i)), Some cs))"
  using assms by (cases cs) (auto simp: Code128_translate_chars_def split: option.splits)

lemma nul_char_simps:
  "(of_char c :: nat) = 0 \<Longrightarrow> \<not> is_digit_char c"
  "(of_char c :: nat) = 0 \<Longrightarrow> \<not> is_space_char c"
  "(of_char c :: nat) = 0 \<Longrightarrow> c \<noteq> CHR ''+''"
  "(of_char c :: nat) = 0 \<Longrightarrow> c \<noteq> CHR ''-''"
  by (auto simp: is_digit_char_def is_space_char_def)

lemma py_int_digits_Nil: "py_int_digits [] = None"
  by (simp add: py_int_digits_def)

lemma py_int_digits_one:
  "py_int_digits [b] = (if is_digit_char b then Some (digit_value b) else None)"
  by (simp add: py_int_digits_def digits_value_def)

lemma py_int_digits_two:
  "py_int_digits [a, b] =
     (if is_digit_char a \<and> is_digit_char b then Some (10 * digit_value a + digit_value b)
      else if is_digit_char a \<and> is_space_char b then Some (digit_value a)
      else None)"
  using is_digit_char_simps(1) [of b]
  by (auto simp: py_int_digits_def digits_value_def)

text \<open>The two-character strings that \<^verbatim>\<open>int(s, 10)\<close> accepts, and their values.\<close>

lemma py_int_pair:
  "py_int [a, b] =
     (if is_digit_char a \<and> is_digit_char b then Some (10 * digit_value a + digit_value b)
      else if (is_space_char a \<or> a = CHR ''+'') \<and> is_digit_char b then Some (digit_value b)
      else if a = CHR ''-'' \<and> is_digit_char b then Some (- digit_value b)
      else if is_digit_char a \<and> is_space_char b then Some (digit_value a)
      else None)"
proof (cases "(of_char a :: nat) = 0 \<or> (of_char b :: nat) = 0")
  case True
  then have "py_int [a, b] = None"
    by (auto simp: py_int_def)
  moreover have "\<not> (is_digit_char a \<and> is_digit_char b)"
    and "\<not> ((is_space_char a \<or> a = CHR ''+'') \<and> is_digit_char b)"
    and "\<not> (a = CHR ''-'' \<and> is_digit_char b)"
    and "\<not> (is_digit_char a \<and> is_space_char b)"
    using True nul_char_simps [of a] nul_char_simps [of b] by blast+
  ultimately show ?thesis by simp
next
  case False
  then have nz: "\<not> list_ex (\<lambda>c. (of_char c :: nat) = 0) [a, b]"
    by simp
  show ?thesis
  proof (cases "is_space_char a")
    case True
    note a = char_class_simps(1-3) [OF True]
    show ?thesis
    proof (cases "is_space_char b")
      case True
      with \<open>is_space_char a\<close> nz a char_class_simps(1) [OF True] show ?thesis
        by (simp add: py_int_def)
    next
      case False
      with \<open>is_space_char a\<close> nz a is_digit_char_simps(2,3) [of b] show ?thesis
        by (auto simp: py_int_def py_int_digits_one py_int_digits_Nil)
    qed
  next
    case False
    then have "py_int [a, b] = py_int_signed [a, b]"
      using nz by (simp add: py_int_def)
    also have "\<dots> =
       (if a = CHR ''-'' then map_option uminus (py_int_digits [b])
        else if a = CHR ''+'' then py_int_digits [b]
        else py_int_digits [a, b])"
      by simp
    finally show ?thesis
      using False char_class_simps(5,6)
      by (auto simp: py_int_digits_one py_int_digits_two)
  qed
qed

text \<open>A character of the active table resolves to its first position there.\<close>

lemma c128_table_position:
  assumes "cs \<noteq> C" and "c \<noteq> CHR ''^''" and "c \<in> set (CODE_TABLES cs)"
  shows "\<exists>i < length (CODE_TABLES cs).
           CODE_TABLES cs ! i = c \<and> c \<notin> set (take i (CODE_TABLES cs)) \<and>
           Code128_translate_chars (Some cs) (c # rest) = (Inr (PyInt (int i)), Some cs)"
proof -
  from assms(3) obtain i where i: "str_index c (CODE_TABLES cs) = Some i"
    by (cases "str_index c (CODE_TABLES cs)") (auto simp: str_index_None_iff)
  from str_index_Some [OF i] c128_table_lookup [OF assms(1,2), of rest] i
  show ?thesis by auto
qed

text \<open>Rules that run the driver on a concrete message.\<close>

lemmas c128_eval =
  code128_def translate_def Code128_reset_def c128_escape c128_caret_alone c128_plain
  str_index_CODE_A_TABLE str_index_CODE_B_TABLE py_int_pair
  isdigit_def is_digit_char_def is_space_char_def digits_value_def digit_value_def
  emit_def halt_def Let_def

subsection \<open>MapTranslation\<close>

lemmas map_eval =
  MapTranslation_translate_def translate_def MapTranslation_translate_chars_def
  MapTranslation_init_def charmap_def charmap_items_def dict_of_def dict_update_def
  dict_get_def dict_keys_def digits_def emit_def halt_def Let_def

lemma map_translate_chars_key:
  assumes "min_chars t \<le> int (length q)" and "int (length q) \<le> max_chars t"
    and "q \<in> set (allowed_chars t)"
  shows "MapTranslation_translate_chars t q = (Inr (dict_get (map_dict t) q), t)"
  using assms by (simp add: MapTranslation_translate_chars_def)

lemma map_translate_chars_single:
  assumes "min_chars t = 1" and "max_chars t = 1"
  shows "MapTranslation_translate_chars t [c] =
     (if [c] \<in> set (allowed_chars t) then (Inr (dict_get (map_dict t) [c]), t)
      else (Inl TranslationError, t))"
  using assms by (simp add: MapTranslation_translate_chars_def)

text \<open>
  A map of one-character units whose values are ordinals: what \<^verbatim>\<open>translate\<close> yields
  for a whole message, under each \<^verbatim>\<open>on_error\<close>.
\<close>

lemma map_translate_loop_single:
  assumes "min_chars t = 1" and "max_chars t = 1"
    and "\<And>k. k \<in> set (allowed_chars t) \<Longrightarrow>
           dict_get (map_dict t) k \<noteq> PyNone \<and> dict_get (map_dict t) k \<noteq> PyNotImplemented"
  shows "translate_loop MapTranslation_translate_chars on_error t [] message =
     (if on_error = RAISE_ON_ERROR then
        \<lparr>yielded = map (\<lambda>c. dict_get (map_dict t) [c])
                     (takeWhile (\<lambda>c. [c] \<in> set (allowed_chars t)) message),
         raised = (if list_all (\<lambda>c. [c] \<in> set (allowed_chars t)) message then None
                   else Some TranslationError),
         final = t\<rparr>
      else if on_error = IGNORE_ON_ERROR \<or> on_error = PyNone then
        \<lparr>yielded = map (\<lambda>c. dict_get (map_dict t) [c])
                     (filter (\<lambda>c. [c] \<in> set (allowed_chars t)) message),
         raised = None, final = t\<rparr>
      else
        \<lparr>yielded = map (\<lambda>c. if [c] \<in> set (allowed_chars t) then dict_get (map_dict t) [c]
                          else on_error) message,
         raised = None, final = t\<rparr>)"
proof (induction message)
  case Nil
  then show ?case by simp
next
  case (Cons c message)
  show ?case
  proof (cases "[c] \<in> set (allowed_chars t)")
    case True
    with assms(3) [OF True] Cons.IH show ?thesis
      by (auto simp: map_translate_chars_single [OF assms(1,2)] emit_def)
  next
    case False
    with Cons.IH show ?thesis
      by (auto simp: map_translate_chars_single [OF assms(1,2)] emit_def halt_def)
  qed
qed

text \<open>A key of the base map that the supplemental map holds too gets the supplemental value.\<close>

lemma map_extra_key_overrides:
  assumes "k \<in> set (dict_keys map0)" and "mn \<le> int (length k)" and "int (length k) \<le> mx"
    and "map_of (rev e) k = Some v"
  shows "fst (MapTranslation_translate_chars (MapTranslation_init map0 mn mx (Some e)) k) = Inr v"
proof -
  have "e \<noteq> []" using assms(4) by auto
  then have "dict_get (map_dict (MapTranslation_init map0 mn mx (Some e))) k = v"
    using assms(4)
    by (simp add: MapTranslation_init_def dict_get_def dict_update_def map_of_foldl_update)
  then show ?thesis
    using assms(1-3) by (simp add: MapTranslation_translate_chars_def MapTranslation_init_def)
qed

section \<open>charmap builds the character map\<close>

text \<open>The doctest of \<^verbatim>\<open>charmap\<close>.\<close>

lemma charmap_doctest:
  "charmap ''0*1*2*3*4'' 100 (Some (CHR ''*'')) =
     [(''0'', PyInt 100), (''*'', PyNone), (''1'', PyInt 102), (''2'', PyInt 104),
      (''3'', PyInt 106), (''4'', PyInt 108)]"
  by (simp add: charmap_def charmap_items_def dict_of_def)

text \<open>
  Claim C8. In \<^verbatim>\<open>charmap(chars, offset, skip_char)\<close> the character at position \<open>n\<close>
  (from 0) has the value \<open>offset + n\<close>, where for a character that occurs more than once
  the position is the one of its last occurrence; the skip character has the value
  \<^verbatim>\<open>None\<close> wherever it stands. The keys are exactly the characters of the alphabet. So
  for an alphabet of pairwise distinct characters, none of them the skip character, every
  character has its position plus the offset, and the map is injective on the alphabet.
\<close>

theorem charmap_ordinals:
  "(n < length chars \<and> chars ! n \<notin> set (drop (Suc n) chars) \<longrightarrow>
      map_of (charmap chars offset skip_char) [chars ! n] =
        Some (if Some (chars ! n) = skip_char then PyNone else PyInt (int n + offset))) \<and>
   (c \<in> set chars \<longrightarrow> map_of (charmap chars offset (Some c)) [c] = Some PyNone) \<and>
   set (dict_keys (charmap chars offset skip_char)) = (\<lambda>c. [c]) ` set chars \<and>
   (distinct chars \<and> (\<forall>c \<in> set chars. Some c \<noteq> skip_char) \<longrightarrow>
      (\<forall>i < length chars.
         map_of (charmap chars offset skip_char) [chars ! i] = Some (PyInt (int i + offset))) \<and>
      inj_on (\<lambda>c. map_of (charmap chars offset skip_char) [c]) (set chars))"
proof (intro conjI impI)
  assume "n < length chars \<and> chars ! n \<notin> set (drop (Suc n) chars)"
  then show "map_of (charmap chars offset skip_char) [chars ! n] =
        Some (if Some (chars ! n) = skip_char then PyNone else PyInt (int n + offset))"
    by (simp add: charmap_last_occurrence)
next
  assume "c \<in> set chars"
  then show "map_of (charmap chars offset (Some c)) [c] = Some PyNone"
    by (rule charmap_skip)
next
  show "set (dict_keys (charmap chars offset skip_char)) = (\<lambda>c. [c]) ` set chars"
    by (rule charmap_keys)
next
  assume h: "distinct chars \<and> (\<forall>c \<in> set chars. Some c \<noteq> skip_char)"
  have pos: "map_of (charmap chars offset skip_char) [chars ! i] = Some (PyInt (int i + offset))"
    if "i < length chars" for i
    using charmap_distinct [of chars i offset skip_char] h that by simp
  then show "\<forall>i < length chars.
      map_of (charmap chars offset skip_char) [chars ! i] = Some (PyInt (int i + offset))"
    by simp
  show "inj_on (\<lambda>c. map_of (charmap chars offset skip_char) [c]) (set chars)"
  proof (rule inj_onI)
    fix x y
    assume "x \<in> set chars" and "y \<in> set chars"
      and eq: "map_of (charmap chars offset skip_char) [x] = map_of (charmap chars offset skip_char) [y]"
    then obtain i j where i: "i < length chars" "chars ! i = x" and j: "j < length chars" "chars ! j = y"
      by (auto simp: in_set_conv_nth)
    from pos [OF i(1)] pos [OF j(1)] eq i j have "i = j" by simp
    with i j show "x = y" by simp
  qed
qed

theorem charmap_ordinals_witness:
  "8 < length ''0*1*2*3*4'' \<and> ''0*1*2*3*4'' ! 8 \<notin> set (drop (Suc 8) ''0*1*2*3*4'') \<and>
   map_of (charmap ''0*1*2*3*4'' 100 (Some (CHR ''*''))) ''4'' = Some (PyInt 108) \<and>
   CHR ''*'' \<in> set ''0*1*2*3*4'' \<and>
   map_of (charmap ''0*1*2*3*4'' 100 (Some (CHR ''*''))) ''*'' = Some PyNone \<and>
   distinct ''0123456789'' \<and>
   map_of (charmap ''0123456789'' 0 None) ''7'' = Some (PyInt 7) \<and>
   inj_on (\<lambda>c. map_of (charmap ''0123456789'' 0 None) [c]) (set ''0123456789'')"
proof -
  have h1: "8 < length ''0*1*2*3*4'' \<and> ''0*1*2*3*4'' ! 8 \<notin> set (drop (Suc 8) ''0*1*2*3*4'')"
    by simp
  have h2: "CHR ''*'' \<in> set ''0*1*2*3*4''"
    by simp
  have h3: "distinct ''0123456789'' \<and> (\<forall>c \<in> set ''0123456789''. Some c \<noteq> (None :: char option))"
    by simp
  have n8: "''0*1*2*3*4'' ! 8 = CHR ''4''" and n7: "''0123456789'' ! 7 = CHR ''7''"
    by simp_all
  note a = charmap_ordinals [of 8 "''0*1*2*3*4''" 100 "Some (CHR ''*'')" "CHR ''*''"]
  note b = charmap_ordinals [of 7 "''0123456789''" 0 None "CHR ''7''"]
  from a h1 have "map_of (charmap ''0*1*2*3*4'' 100 (Some (CHR ''*''))) [''0*1*2*3*4'' ! 8] =
      Some (if Some (''0*1*2*3*4'' ! 8) = Some (CHR ''*'') then PyNone else PyInt (int 8 + 100))"
    by blast
  then have r1: "map_of (charmap ''0*1*2*3*4'' 100 (Some (CHR ''*''))) ''4'' = Some (PyInt 108)"
    by (simp add: n8)
  from a h2 have r2: "map_of (charmap ''0*1*2*3*4'' 100 (Some (CHR ''*''))) ''*'' = Some PyNone"
    by blast
  from b h3 have r4: "inj_on (\<lambda>c. map_of (charmap ''0123456789'' 0 None) [c]) (set ''0123456789'')"
    by blast
  have h4: "7 < length ''0123456789'' \<and> ''0123456789'' ! 7 \<notin> set (drop (Suc 7) ''0123456789'')"
    by simp
  with b have "map_of (charmap ''0123456789'' 0 None) [''0123456789'' ! 7] =
      Some (if Some (''0123456789'' ! 7) = None then PyNone else PyInt (int 7 + 0))"
    by blast
  then have r3: "map_of (charmap ''0123456789'' 0 None) ''7'' = Some (PyInt 7)"
    by (simp add: n7)
  from h1 h2 h3 r1 r2 r3 r4 show ?thesis
    by blast
qed

section \<open>The base class has no resolver\<close>

text \<open>
  Claim C7. \<^verbatim>\<open>Translation.translate_chars\<close> returns \<^verbatim>\<open>NotImplemented\<close>, and the driver
  answers the first character of the message with a \<^verbatim>\<open>TypeError\<close>, which is not a
  \<^verbatim>\<open>TranslationError\<close>. The \<^verbatim>\<open>on_error\<close> argument plays no part: whatever it is
  (raise, ignore, a replacement unit, or nothing), nothing is yielded and the
  \<^verbatim>\<open>TypeError\<close> ends the generator. The resolver is consulted once per character, so
  the statement is about the messages that have one.
\<close>

theorem base_translate_type_error:
  "message \<noteq> [] \<Longrightarrow>
   Translation_translate message on_error = \<lparr>yielded = [], raised = Some TypeError, final = ()\<rparr>"
  by (cases message)
     (simp_all add: Translation_translate_def translate_def Translation_translate_chars_def
        Translation_reset_def halt_def)

theorem base_translate_type_error_witness:
  "''spam eggs'' \<noteq> [] \<and>
   Translation_translate ''spam eggs'' IGNORE_ON_ERROR =
     \<lparr>yielded = [], raised = Some TypeError, final = ()\<rparr>"
  using base_translate_type_error [of "''spam eggs''" IGNORE_ON_ERROR] by simp

section \<open>The driver and the error policy\<close>

text \<open>The doctests of \<^verbatim>\<open>MapTranslation\<close>, on the map of the alphabet \<^verbatim>\<open>+0123456789\<close>.\<close>

lemma map_translation_doctests:
  "yielded (MapTranslation_translate (MapTranslation_init (charmap ''+0123456789'' 0 None) 1 1 None)
      ''+++1357+++'' PyNone) =
     [PyInt 0, PyInt 0, PyInt 0, PyInt 2, PyInt 4, PyInt 6, PyInt 8, PyInt 0, PyInt 0, PyInt 0]"
  "yielded (MapTranslation_translate (MapTranslation_init (charmap ''+0123456789'' 0 None) 1 1 None)
      ''1234xx'' PyNone) = [PyInt 2, PyInt 3, PyInt 4, PyInt 5]"
  "raised (MapTranslation_translate (MapTranslation_init (charmap ''+0123456789'' 0 None) 1 1 None)
      ''1234xx'' RAISE_ON_ERROR) = Some TranslationError"
  "yielded (MapTranslation_translate (MapTranslation_init (charmap ''+0123456789'' 0 None) 1 1 None)
      ''1234xx'' IGNORE_ON_ERROR) = [PyInt 2, PyInt 3, PyInt 4, PyInt 5]"
  "yielded (MapTranslation_translate (MapTranslation_init (charmap ''+0123456789'' 0 None) 1 1 None)
      ''1234xx'' (PyStr ''#'')) = [PyInt 2, PyInt 3, PyInt 4, PyInt 5, PyStr ''#'', PyStr ''#'']"
  by (simp_all add: map_eval)



section \<open>MapTranslation: the sentinel and the supplemental map\<close>

text \<open>
  Claim C2, as amended. For a queue that is an allowed key within the length bounds,
  \<^verbatim>\<open>MapTranslation.translate_chars\<close> returns the map's value, also when that value is
  \<^verbatim>\<open>None\<close>, the value of the skip character. The driver does not yield a returned
  \<^verbatim>\<open>None\<close>: it reads it as "wait for the next character", yields nothing and keeps the
  queue. So \<^verbatim>\<open>translate\<close> on the skip character alone yields the empty sequence.
\<close>

theorem map_sentinel_is_pending:
  "(min_chars t \<le> int (length q) \<and> int (length q) \<le> max_chars t \<and> q \<in> set (allowed_chars t) \<longrightarrow>
      MapTranslation_translate_chars t q = (Inr (dict_get (map_dict t) q), t)) \<and>
   (tc s (queue @ [c]) = (Inr PyNone, s') \<longrightarrow>
      translate_loop tc on_error s queue (c # message) =
        translate_loop tc on_error s' (queue @ [c]) message) \<and>
   (skip \<in> set chars \<longrightarrow>
      dict_get (map_dict (MapTranslation_init (charmap chars offset (Some skip)) 1 1 None)) [skip] = PyNone \<and>
      MapTranslation_translate (MapTranslation_init (charmap chars offset (Some skip)) 1 1 None)
          [skip] on_error =
        \<lparr>yielded = [], raised = None,
         final = MapTranslation_init (charmap chars offset (Some skip)) 1 1 None\<rparr>)"
proof (intro conjI impI)
  assume "min_chars t \<le> int (length q) \<and> int (length q) \<le> max_chars t \<and> q \<in> set (allowed_chars t)"
  then show "MapTranslation_translate_chars t q = (Inr (dict_get (map_dict t) q), t)"
    by (simp add: map_translate_chars_key)
next
  assume "tc s (queue @ [c]) = (Inr PyNone, s')"
  then show "translate_loop tc on_error s queue (c # message) =
        translate_loop tc on_error s' (queue @ [c]) message"
    by simp
next
  let ?t = "MapTranslation_init (charmap chars offset (Some skip)) 1 1 None"
  assume skip: "skip \<in> set chars"
  then have "[skip] \<in> set (allowed_chars ?t)"
    using charmap_keys [of chars offset "Some skip"] by (simp add: MapTranslation_init_def)
  moreover have get: "dict_get (map_dict ?t) [skip] = PyNone"
    using charmap_skip [OF skip, of offset] by (simp add: MapTranslation_init_def dict_get_def)
  ultimately have "MapTranslation_translate_chars ?t [skip] = (Inr PyNone, ?t)"
    using map_translate_chars_key [of ?t "[skip]"] by (simp add: MapTranslation_init_def)
  then show "MapTranslation_translate ?t [skip] on_error = \<lparr>yielded = [], raised = None, final = ?t\<rparr>"
    by (simp add: MapTranslation_translate_def translate_def)
  show "dict_get (map_dict ?t) [skip] = PyNone" by (rule get)
qed

theorem map_sentinel_is_pending_witness:
  "(1::int) \<le> int (length ''*'') \<and> int (length ''*'') \<le> (1::int) \<and>
   CHR ''*'' \<in> set ''0*1'' \<and>
   MapTranslation_translate_chars
       (MapTranslation_init (charmap ''0*1'' 0 (Some (CHR ''*''))) 1 1 None) ''*'' =
     (Inr PyNone, MapTranslation_init (charmap ''0*1'' 0 (Some (CHR ''*''))) 1 1 None) \<and>
   translate_loop MapTranslation_translate_chars PyNone
       (MapTranslation_init (charmap ''0*1'' 0 (Some (CHR ''*''))) 1 1 None) [] ''*1'' =
     translate_loop MapTranslation_translate_chars PyNone
       (MapTranslation_init (charmap ''0*1'' 0 (Some (CHR ''*''))) 1 1 None) ''*'' ''1'' \<and>
   MapTranslation_translate (MapTranslation_init (charmap ''0*1'' 0 (Some (CHR ''*''))) 1 1 None)
       ''*'' PyNone =
     \<lparr>yielded = [], raised = None,
      final = MapTranslation_init (charmap ''0*1'' 0 (Some (CHR ''*''))) 1 1 None\<rparr> \<and>
   yielded (MapTranslation_translate
       (MapTranslation_init (charmap ''0*1'' 0 (Some (CHR ''*''))) 1 1 None) ''*1'' PyNone) = []"
proof -
  let ?t = "MapTranslation_init (charmap ''0*1'' 0 (Some (CHR ''*''))) 1 1 None"
  have t: "?t = \<lparr>min_chars = 1, max_chars = 1,
                 map_dict = [(''0'', PyInt 0), (''*'', PyNone), (''1'', PyInt 2)],
                 allowed_chars = [''0'', ''*'', ''1'']\<rparr>"
    by (simp add: map_eval)
  have h1: "min_chars ?t \<le> int (length ''*'') \<and> int (length ''*'') \<le> max_chars ?t \<and>
            ''*'' \<in> set (allowed_chars ?t)"
    by (simp add: t)
  have h3: "CHR ''*'' \<in> set ''0*1''"
    by simp
  note a = map_sentinel_is_pending [of ?t "''*''" MapTranslation_translate_chars ?t "[]" "CHR ''*''"
      ?t PyNone "''1''" "CHR ''*''" "''0*1''" 0]
  from a h1 have tc: "MapTranslation_translate_chars ?t ''*'' = (Inr (dict_get (map_dict ?t) ''*''), ?t)"
    by blast
  from a h3 have get: "dict_get (map_dict ?t) ''*'' = PyNone"
    and run: "MapTranslation_translate ?t ''*'' PyNone = \<lparr>yielded = [], raised = None, final = ?t\<rparr>"
    by blast+
  from tc get have h2: "MapTranslation_translate_chars ?t ([] @ ''*'') = (Inr PyNone, ?t)"
    by simp
  with a have step: "translate_loop MapTranslation_translate_chars PyNone ?t [] ''*1'' =
      translate_loop MapTranslation_translate_chars PyNone ?t ([] @ ''*'') ''1''"
    by blast
  have over: "yielded (translate_loop MapTranslation_translate_chars PyNone ?t ''*'' ''1'') = []"
    unfolding t by (simp add: MapTranslation_translate_chars_def)
  from step over have r5: "yielded (MapTranslation_translate ?t ''*1'' PyNone) = []"
    by (simp add: MapTranslation_translate_def translate_def)
  from h3 tc get run step r5 show ?thesis
    by simp
qed

text \<open>
  The claim as stated fails: for the map of \<^verbatim>\<open>charmap('0*1', skip_char='*')\<close>,
  translating \<^verbatim>\<open>*\<close> yields nothing, not the one-element sequence of \<^verbatim>\<open>None\<close>.
\<close>

theorem map_skip_not_emitted_counterexample:
  "yielded (MapTranslation_translate (MapTranslation_init (charmap ''0*1'' 0 (Some (CHR ''*''))) 1 1 None)
      ''*'' PyNone) \<noteq> [PyNone] \<and>
   yielded (MapTranslation_translate (MapTranslation_init (charmap ''0*1'' 0 (Some (CHR ''*''))) 1 1 None)
      ''*'' PyNone) = []"
  by (simp add: map_eval)



section \<open>Code 128: escapes, code sets and plain characters\<close>

text \<open>The doctests of \<^verbatim>\<open>Code128Translation\<close>.\<close>

lemma code128_doctests:
  "yielded (code128 None (''^103AZ_^^_'' @ [CHR 0x00, CHR 0x01, CHR 0x02])
      RAISE_ON_ERROR) =
     [PyInt 103, PyInt 33, PyInt 58, PyInt 63, PyInt 62, PyInt 63, PyInt 64, PyInt 65, PyInt 66]"
  "yielded (code128 None (''^104AZ_^^_'' @ [CHR 0x60] @ ''ab'') RAISE_ON_ERROR) =
     [PyInt 104, PyInt 33, PyInt 58, PyInt 63, PyInt 62, PyInt 63, PyInt 64, PyInt 65, PyInt 66]"
  "yielded (code128 None ''^105^102^'' RAISE_ON_ERROR) = [PyInt 105, PyInt 102]"
  "yielded (code128 None ''^105^102123456^100A1'' RAISE_ON_ERROR) =
     [PyInt 105, PyInt 102, PyInt 12, PyInt 34, PyInt 56, PyInt 100, PyInt 33, PyInt 17]"
  "code128 None ''^105^X'' RAISE_ON_ERROR =
     \<lparr>yielded = [PyInt 105], raised = Some TranslationError, final = Some C\<rparr>"
  "yielded (code128 None ''^105^X^102'' PyNone) = [PyInt 105, PyInt 102]"
  by (simp_all add: c128_eval)

text \<open>
  Claim C1. In code set A or B a plain character is looked up in the active table.
  \<^verbatim>\<open>translate_chars\<close> catches \<^verbatim>\<open>IndexError\<close>, but \<^verbatim>\<open>str.index\<close> raises
  \<^verbatim>\<open>ValueError\<close> for a missing character, so the \<^verbatim>\<open>TranslationError\<close> that the
  handler would raise ("is not in code table") is never raised: a plain \<^verbatim>\<open>ValueError\<close>
  leaves \<^verbatim>\<open>translate_chars\<close>, the driver's \<^verbatim>\<open>except TranslationError\<close> does not catch
  it, and \<^verbatim>\<open>translate\<close> ends with it under every \<^verbatim>\<open>on_error\<close>. The claim's
  filtered failure is what the handler was written for; the code does not deliver it.
\<close>

theorem c128_missing_char_value_error:
  assumes "cs \<noteq> C" and "c \<noteq> CHR ''^''" and "c \<notin> set (CODE_TABLES cs)"
  shows "Code128_translate_chars (Some cs) [c] = (Inl ValueError, Some cs) \<and>
         translate_loop Code128_translate_chars on_error (Some cs) [] (c # message) =
           \<lparr>yielded = [], raised = Some ValueError, final = Some cs\<rparr>"
proof -
  have "str_index c (CODE_TABLES cs) = None"
    using assms(3) by (simp add: str_index_None_iff)
  then have "Code128_translate_chars (Some cs) [c] = (Inl ValueError, Some cs)"
    using c128_table_lookup [OF assms(1,2), of "[]"] by simp
  then show ?thesis
    by (simp add: halt_def)
qed

theorem c128_missing_char_value_error_witness:
  "A \<noteq> C \<and> CHR ''a'' \<noteq> CHR ''^'' \<and> CHR ''a'' \<notin> set (CODE_TABLES A) \<and>
   Code128_translate_chars (Some A) ''a'' = (Inl ValueError, Some A) \<and>
   code128 None ''^103a'' IGNORE_ON_ERROR =
     \<lparr>yielded = [PyInt 103], raised = Some ValueError, final = Some A\<rparr> \<and>
   code128 None ''^103a'' (PyStr ''#'') =
     \<lparr>yielded = [PyInt 103], raised = Some ValueError, final = Some A\<rparr> \<and>
   code128 None ''^103a'' RAISE_ON_ERROR =
     \<lparr>yielded = [PyInt 103], raised = Some ValueError, final = Some A\<rparr>"
proof -
  have a: "CHR ''a'' \<notin> set (CODE_TABLES A)"
    by (simp add: CODE_TABLES_def CODE_A_TABLE_set)
  have run: "code128 None ''^103a'' e =
     \<lparr>yielded = [PyInt 103], raised = Some ValueError, final = Some A\<rparr>" for e
    by (simp add: c128_eval)
  show ?thesis
    using c128_missing_char_value_error [of A "CHR ''a''" IGNORE_ON_ERROR "[]"] a run
    by simp
qed




text \<open>
  Claim C4. A call of \<^verbatim>\<open>Code128Translation.translate_chars\<close> changes the attribute
  \<^verbatim>\<open>code\<close> only when the queue is a caret followed by digits and the call returns their
  value \<open>v\<close>: to C for 99 and 105, to B for 100 and 104, to A for 101 and 103. Every other
  outcome leaves \<^verbatim>\<open>code\<close> as it was: the values 96 to 98, 102, 106 and 107, the pair
  of carets, a table lookup, a pair of digits in code set C, every \<^verbatim>\<open>None\<close> and every
  exception.
\<close>

theorem c128_code_frame:
  "snd (Code128_translate_chars code q) =
     (case fst (Code128_translate_chars code q) of
        Inr (PyInt v) \<Rightarrow>
          if q \<noteq> [] \<and> hd q = CHR ''^'' \<and> isdigit (tl q) then
            (if v = 99 \<or> v = 105 then Some C
             else if v = 100 \<or> v = 104 then Some B
             else if v = 101 \<or> v = 103 then Some A
             else code)
          else code
      | _ \<Rightarrow> code)"
proof (cases q)
  case Nil
  then show ?thesis by (simp add: Code128_translate_chars_def)
next
  case (Cons c0 rest)
  show ?thesis
  proof (cases "c0 = CHR ''^''")
    case True
    show ?thesis
    proof (cases rest)
      case Nil
      with True Cons show ?thesis by (simp add: Code128_translate_chars_def)
    next
      case (Cons c rest')
      with True \<open>q = c0 # rest\<close> show ?thesis
        by (simp add: c128_escape isdigit_def is_digit_char_def)
    qed
  next
    case False
    with Cons show ?thesis
      by (simp add: Code128_translate_chars_def split: option.splits)
  qed
qed

theorem c128_code_frame_witness:
  "snd (Code128_translate_chars None ''^101'') = Some A \<and>
   snd (Code128_translate_chars (Some A) ''^104'') = Some B \<and>
   snd (Code128_translate_chars (Some B) ''^99'') = Some C \<and>
   snd (Code128_translate_chars (Some B) ''^102'') = Some B \<and>
   snd (Code128_translate_chars (Some B) ''^^'') = Some B \<and>
   snd (Code128_translate_chars (Some B) ''^X'') = Some B"
  using c128_code_frame [of None "''^101''"] c128_code_frame [of "Some A" "''^104''"]
    c128_code_frame [of "Some B" "''^99''"] c128_code_frame [of "Some B" "''^102''"]
    c128_code_frame [of "Some B" "''^^''"] c128_code_frame [of "Some B" "''^X''"]
  by (simp add: c128_escape isdigit_def is_digit_char_def digits_value_def digit_value_def)

text \<open>
  Claim C5. With no code set selected (\<^verbatim>\<open>code\<close> is \<^verbatim>\<open>None\<close>) a plain character
  cannot be resolved, and the claim asks for a failure that \<^verbatim>\<open>RAISE_ON_ERROR\<close> turns
  into an exception, as the class docstring promises ("Invalid character raises
  TranslationError") and as the other branches do for their bad input. The code misses
  that case: the chain on \<^verbatim>\<open>self.code\<close> handles A, B and C and has no branch for
  \<^verbatim>\<open>None\<close>, so \<^verbatim>\<open>translate_chars\<close> falls through to \<^verbatim>\<open>return ordinal\<close> with
  \<^verbatim>\<open>ordinal = None\<close>. The driver reads that as "wait for the next character" and keeps
  the queue, which then never starts with a caret: a message that starts with a plain
  character yields nothing and raises nothing, under every \<^verbatim>\<open>on_error\<close>, also under
  \<^verbatim>\<open>RAISE_ON_ERROR\<close>, and every escape after it is swallowed with it.
\<close>

theorem c128_no_code_set_pending:
  assumes "message \<noteq> []" and "hd message \<noteq> CHR ''^''"
  shows "Code128_translate_chars None message = (Inr PyNone, None) \<and>
         code128 code message on_error = \<lparr>yielded = [], raised = None, final = None\<rparr>"
proof -
  obtain c cs where m: "message = c # cs" and c: "c \<noteq> CHR ''^''"
    using assms by (cases message) auto
  have "translate_loop Code128_translate_chars on_error None [c] cs =
          \<lparr>yielded = [], raised = None, final = None\<rparr>"
    using c by (intro c128_loop_no_code) simp_all
  moreover have "Code128_translate_chars None [c] = (Inr PyNone, None)"
    using c by (intro c128_plain_no_code) simp_all
  ultimately have "code128 code message on_error = \<lparr>yielded = [], raised = None, final = None\<rparr>"
    by (simp add: code128_def translate_def Code128_reset_def m)
  then show ?thesis
    using c128_plain_no_code [OF assms] by simp
qed

theorem c128_no_code_set_pending_witness:
  "''A^103B^104xyz'' \<noteq> [] \<and> hd ''A^103B^104xyz'' \<noteq> CHR ''^'' \<and>
   Code128_translate_chars None ''A'' = (Inr PyNone, None) \<and>
   code128 None ''A'' RAISE_ON_ERROR = \<lparr>yielded = [], raised = None, final = None\<rparr> \<and>
   code128 None ''A^103B^104xyz'' RAISE_ON_ERROR =
     \<lparr>yielded = [], raised = None, final = None\<rparr>"
  using c128_no_code_set_pending [of "''A^103B^104xyz''" None RAISE_ON_ERROR]
    c128_no_code_set_pending [of "''A''" None RAISE_ON_ERROR]
  by simp

text \<open>
  Claim C10, as amended. In code set C a queue that does not start with a caret grows to
  two characters and goes to \<^verbatim>\<open>int(queue, 10)\<close>. \<^verbatim>\<open>int\<close> accepts two digits, and also
  one digit after a sign or after white space, and one digit before white space. For
  every other such pair it raises a \<^verbatim>\<open>ValueError\<close>, which is not a
  \<^verbatim>\<open>TranslationError\<close>: it passes the driver's handler and ends \<^verbatim>\<open>translate\<close> under
  every \<^verbatim>\<open>on_error\<close>, also under \<^verbatim>\<open>IGNORE_ON_ERROR\<close> and with a replacement unit.
  (A queue that starts with a caret is an escape in every code set and never reaches
  \<^verbatim>\<open>int\<close> this way: \<open>c128_escape\<close>.)
\<close>

theorem c128_code_c_bad_pair:
  assumes "a \<noteq> CHR ''^''"
    and "\<not> (is_digit_char a \<and> is_digit_char b)"
    and "\<not> ((is_space_char a \<or> a = CHR ''+'' \<or> a = CHR ''-'') \<and> is_digit_char b)"
    and "\<not> (is_digit_char a \<and> is_space_char b)"
  shows "Code128_translate_chars (Some C) [a, b] = (Inl ValueError, Some C) \<and>
         translate_loop Code128_translate_chars on_error (Some C) [] (a # b # message) =
           \<lparr>yielded = [], raised = Some ValueError, final = Some C\<rparr>"
proof -
  have "py_int [a, b] = None"
    using assms(2-4) by (auto simp: py_int_pair)
  then have 2: "Code128_translate_chars (Some C) [a, b] = (Inl ValueError, Some C)"
    using assms(1) by (simp add: c128_plain)
  have 1: "Code128_translate_chars (Some C) [a] = (Inr PyNone, Some C)"
    using assms(1) by (simp add: c128_plain)
  show ?thesis
    using 1 2 by (simp add: halt_def)
qed

theorem c128_code_c_bad_pair_witness:
  "CHR ''1'' \<noteq> CHR ''^'' \<and>
   \<not> (is_digit_char (CHR ''1'') \<and> is_digit_char (CHR ''x'')) \<and>
   \<not> ((is_space_char (CHR ''1'') \<or> CHR ''1'' = CHR ''+'' \<or> CHR ''1'' = CHR ''-'') \<and>
        is_digit_char (CHR ''x'')) \<and>
   \<not> (is_digit_char (CHR ''1'') \<and> is_space_char (CHR ''x'')) \<and>
   Code128_translate_chars (Some C) ''1x'' = (Inl ValueError, Some C) \<and>
   translate_loop Code128_translate_chars IGNORE_ON_ERROR (Some C) [] ''1x23'' =
     \<lparr>yielded = [], raised = Some ValueError, final = Some C\<rparr> \<and>
   code128 None ''^1051x23'' (PyStr ''#'') =
     \<lparr>yielded = [PyInt 105], raised = Some ValueError, final = Some C\<rparr>"
proof -
  have run: "code128 None ''^1051x23'' (PyStr ''#'') =
     \<lparr>yielded = [PyInt 105], raised = Some ValueError, final = Some C\<rparr>"
    by (simp add: c128_eval)
  show ?thesis
    using c128_code_c_bad_pair [of "CHR ''1''" "CHR ''x''" IGNORE_ON_ERROR "''23''"] run
    by (simp add: is_digit_char_def is_space_char_def)
qed

text \<open>
  The claim as stated fails: \<^verbatim>\<open>+5\<close> is not a pair of digits, and in code set C it is
  the ordinal 5, with no exception; \<^verbatim>\<open>-5\<close> is the ordinal \<open>-5\<close>.
\<close>

theorem c128_code_c_signed_pair_counterexample:
  "\<not> (is_digit_char (CHR ''+'') \<and> is_digit_char (CHR ''5'')) \<and>
   Code128_translate_chars (Some C) ''+5'' = (Inr (PyInt 5), Some C) \<and>
   Code128_translate_chars (Some C) ''-5'' = (Inr (PyInt (- 5)), Some C) \<and>
   code128 None ''^105+5'' IGNORE_ON_ERROR =
     \<lparr>yielded = [PyInt 105, PyInt 5], raised = None, final = Some C\<rparr>"
  by (simp add: c128_eval)

end
